theory Spec2Isabelle
  imports Main "HOL-Library.Word"
begin

section \<open>The Python runtime seen by getgist\<close>

text \<open>
  The program is the single module \<^verbatim>\<open>getgist/__main__.py\<close>. It talks to four things
  outside itself: the network (\<^verbatim>\<open>urlopen\<close>), the console (\<^verbatim>\<open>print\<close>, \<^verbatim>\<open>input\<close>), the
  process environment (\<^verbatim>\<open>os.getenv\<close>) and the file system (\<^verbatim>\<open>os.path.exists\<close>,
  \<^verbatim>\<open>os.remove\<close>, \<^verbatim>\<open>os.rename\<close>, \<^verbatim>\<open>open\<close>). Console and file system are the state
  \<open>world\<close> that every method takes and returns; the library functions whose code is
  not part of the module (\<^verbatim>\<open>urlopen\<close>, \<^verbatim>\<open>bytes.decode\<close>, \<^verbatim>\<open>json.loads\<close>, \<^verbatim>\<open>int\<close>,
  \<^verbatim>\<open>os.path.abspath\<close>) are the fields of the record \<open>env\<close>, so every theorem holds for
  any behaviour of theirs. An exception is a value of \<open>exn\<close>; a method that may raise
  returns \<open>exn + 'a\<close> with \<open>Inl\<close> the exception that leaves it.
\<close>

datatype exn =
    HTTPError nat
  | URLError
  | SocketTimeout
  | BadStatusLine
  | ValueError
  | UnicodeDecodeError
  | EOFError
  | FileNotFoundError

text \<open>
  \<^verbatim>\<open>except HTTPError\<close> catches the instances of \<^verbatim>\<open>HTTPError\<close> only. In \<^verbatim>\<open>urllib\<close> the
  class \<^verbatim>\<open>HTTPError\<close> is a subclass of \<^verbatim>\<open>URLError\<close>, not the other way round: an
  unreachable host is a \<^verbatim>\<open>URLError\<close>, a timeout a \<^verbatim>\<open>socket.timeout\<close>, a malformed
  status line a \<^verbatim>\<open>BadStatusLine\<close>.
\<close>

fun is_HTTPError :: "exn \<Rightarrow> bool" where
  "is_HTTPError (HTTPError code) = True"
| "is_HTTPError e = False"

type_synonym bytes = "8 word list"

text \<open>What \<^verbatim>\<open>Request(url)\<close>, \<^verbatim>\<open>add_header\<close>, \<^verbatim>\<open>urlopen(request)\<close> and \<^verbatim>\<open>getcode()\<close>
  give together: an exception, or a response with its status and body.\<close>

datatype urlopen_result = Raised exn | Response nat bytes

text \<open>The two payloads of the GitHub API that the program reads: the listing of a
  user's gists (each with \<^verbatim>\<open>id\<close>, \<^verbatim>\<open>description\<close>, and \<^verbatim>\<open>files\<close>, a mapping from file
  name to an object with \<^verbatim>\<open>raw_url\<close>) and the identity object with \<^verbatim>\<open>login\<close>.\<close>

record api_file =
  file_raw_url :: string

record api_gist =
  gist_id :: string
  gist_description :: "string option"
  files :: "string \<rightharpoonup> api_file"

record api_user =
  login :: "string option"

record env =
  urlopen :: "string \<Rightarrow> (string \<rightharpoonup> string) \<Rightarrow> urlopen_result"
  utf8_decode :: "bytes \<Rightarrow> string option"
  json_gists :: "string \<Rightarrow> api_gist list option"
  json_user :: "string \<Rightarrow> api_user option"
  int_of_str :: "string \<Rightarrow> int option"
  getenv_token :: "string option"
  realpath_curdir :: string
  abspath :: "string \<Rightarrow> string"

text \<open>
  \<open>utf8_decode\<close>, \<open>json_gists\<close>, \<open>json_user\<close> and \<open>int_of_str\<close> answer \<open>None\<close> where
  the Python function raises (\<^verbatim>\<open>UnicodeDecodeError\<close>, \<^verbatim>\<open>ValueError\<close>). A payload that
  is JSON of another shape than the API documents is outside the model.
\<close>

datatype event = Printed string | Prompted string

record world =
  fs :: "string \<rightharpoonup> string"
  out :: "event list"
  inp :: "string list"

text \<open>The dictionary that \<^verbatim>\<open>filter_gists\<close> yields, and the object \<^verbatim>\<open>self\<close>.\<close>

record match =
  match_id :: string
  description :: "string option"
  raw_url :: string

record gist =
  user :: string
  file_name :: string
  assume_yes :: bool
  auth :: "bool option"
  token :: "string option"
  local_dir :: string
  local_path :: string
  info :: "match option"

subsection \<open>Strings\<close>

text \<open>The character U+2026 of the messages, in UTF-8.\<close>

definition ellipsis :: string where
  "ellipsis = [CHR 0xE2, CHR 0x80, CHR 0xA6]"

text \<open>\<^verbatim>\<open>'{}'.format(n)\<close> for an integer \<open>n \<ge> 0\<close>: decimal, no leading zero.\<close>

fun str_nat :: "nat \<Rightarrow> string" where
  "str_nat n = (if n < 10 then [char_of (48 + n)] else str_nat (n div 10) @ [char_of (48 + n mod 10)])"

text \<open>\<^verbatim>\<open>'{}'.format(x)\<close> for a value that is a string or \<^verbatim>\<open>None\<close>.\<close>

fun str_opt :: "string option \<Rightarrow> string" where
  "str_opt None = ''None''"
| "str_opt (Some s) = s"

text \<open>\<^verbatim>\<open>not x\<close> for a value that is a string or \<^verbatim>\<open>None\<close>.\<close>

fun py_not :: "string option \<Rightarrow> bool" where
  "py_not None = True"
| "py_not (Some s) = (s = [])"

text \<open>\<^verbatim>\<open>str.lower\<close> on the ASCII letters. No other character has the lower case \<^verbatim>\<open>y\<close>,
  the only value the program compares the result with.\<close>

definition lower_char :: "char \<Rightarrow> char" where
  "lower_char c = (let n = (of_char c :: nat) in if 65 \<le> n \<and> n \<le> 90 then char_of (n + 32) else c)"

definition lower :: "string \<Rightarrow> string" where
  "lower s = map lower_char s"

text \<open>\<^verbatim>\<open>posixpath.join\<close> with two arguments.\<close>

definition join :: "string \<Rightarrow> string \<Rightarrow> string" where
  "join a b =
     (if b \<noteq> [] \<and> hd b = CHR ''/'' then b
      else if a = [] \<or> last a = CHR ''/'' then a @ b
      else a @ ''/'' @ b)"

text \<open>\<^verbatim>\<open>list.index\<close>: the first position of an equal element, \<^verbatim>\<open>ValueError\<close> (here
  \<open>None\<close>) when there is none.\<close>

fun list_index :: "'a list \<Rightarrow> 'a \<Rightarrow> nat option" where
  "list_index [] x = None"
| "list_index (y # ys) x = (if y = x then Some 0 else map_option Suc (list_index ys x))"

text \<open>\<^verbatim>\<open>json.loads\<close>: the empty document is not JSON, whatever the decoder.\<close>

definition json_loads :: "(string \<Rightarrow> 'a option) \<Rightarrow> string \<Rightarrow> exn + 'a" where
  "json_loads decoder s =
     (if s = [] then Inl ValueError
      else case decoder s of None \<Rightarrow> Inl ValueError | Some v \<Rightarrow> Inr v)"

subsection \<open>Console and file system\<close>

definition indent :: "string \<Rightarrow> nat \<Rightarrow> string" where
  "indent message spaces = replicate spaces (CHR '' '') @ message"

definition output_line :: "world \<Rightarrow> string \<Rightarrow> world" where
  "output_line w message = w\<lparr>out := out w @ [Printed (indent message 2)]\<rparr>"

text \<open>\<^verbatim>\<open>input(prompt)\<close> writes the prompt and reads a line; at the end of the input it
  raises \<^verbatim>\<open>EOFError\<close>.\<close>

definition ask :: "world \<Rightarrow> string \<Rightarrow> (exn + string) \<times> world" where
  "ask w message =
     (let w1 = w\<lparr>out := out w @ [Prompted (indent message 2)]\<rparr>
      in case inp w1 of
           [] \<Rightarrow> (Inl EOFError, w1)
         | a # rest \<Rightarrow> (Inr a, w1\<lparr>inp := rest\<rparr>))"

text \<open>The file system is a map from path to content: every path is a writable file
  location, and permissions, directories and full disks are not modelled.\<close>

definition exists :: "world \<Rightarrow> string \<Rightarrow> bool" where
  "exists w path = (fs w path \<noteq> None)"

definition os_remove :: "world \<Rightarrow> string \<Rightarrow> (exn + unit) \<times> world" where
  "os_remove w path =
     (case fs w path of
        None \<Rightarrow> (Inl FileNotFoundError, w)
      | Some c \<Rightarrow> (Inr (), w\<lparr>fs := (fs w)(path := None)\<rparr>))"

definition os_rename :: "world \<Rightarrow> string \<Rightarrow> string \<Rightarrow> (exn + unit) \<times> world" where
  "os_rename w src dst =
     (case fs w src of
        None \<Rightarrow> (Inl FileNotFoundError, w)
      | Some c \<Rightarrow> (Inr (), w\<lparr>fs := ((fs w)(src := None))(dst \<mapsto> c)\<rparr>))"

section \<open>The class Gist\<close>

definition api_url :: string where
  "api_url = ''https://api.github.com''"

subsection \<open>curl\<close>

text \<open>
  The default \<^verbatim>\<open>headers=dict()\<close> is one dictionary shared by all calls; the only entry
  ever stored in it is the \<^verbatim>\<open>Authorization\<close> header of this run's token, so a call with
  the default behaves as a call with the empty mapping. The format string of the last
  message has one placeholder for two arguments: it prints the URL, never the status.
\<close>

definition curl :: "env \<Rightarrow> gist \<Rightarrow> world \<Rightarrow> string \<Rightarrow> (string \<rightharpoonup> string) \<Rightarrow> (exn + string) \<times> world" where
  "curl E g w url headers =
     (let headers' = (if auth g = Some True \<and> headers ''Authorization'' = None
                      then headers(''Authorization'' \<mapsto> ''token '' @ str_opt (token g))
                      else headers);
          w1 = output_line w (''Fetching '' @ url @ '' '' @ ellipsis)
      in case urlopen E url headers' of
           Raised e \<Rightarrow>
             if is_HTTPError e
             then (Inr [], output_line w1 (''[Error] Couldn't reach GitHub at '' @ url @ ''.''))
             else (Inl e, w1)
         | Response status body \<Rightarrow>
             if status = 200
             then (case utf8_decode E body of
                     None \<Rightarrow> (Inl UnicodeDecodeError, w1)
                   | Some contents \<Rightarrow> (Inr contents, w1))
             else (Inr [], output_line w1 (''[Error] HTTP Status '' @ url @ ''.'')))"

subsection \<open>Authentication\<close>

definition get_token :: "env \<Rightarrow> world \<Rightarrow> string option \<times> world" where
  "get_token E w =
     (let token = getenv_token E
      in if py_not token then (token, output_line w ''No access token set.'') else (token, w))"

definition validate_token :: "env \<Rightarrow> gist \<Rightarrow> world \<Rightarrow> (exn + bool) \<times> world" where
  "validate_token E g w =
     (if py_not (token g) then (Inr False, w)
      else
        (let headers = [''Authorization'' \<mapsto> ''token '' @ str_opt (token g)];
             url = api_url @ ''/user''
         in case curl E g w url headers of
              (Inl e, w1) \<Rightarrow> (Inl e, w1)
            | (Inr s, w1) \<Rightarrow>
                (case json_loads (json_user E) s of
                   Inl e \<Rightarrow> (Inl e, w1)
                 | Inr response \<Rightarrow>
                     if login response \<noteq> Some (user g)
                     then (Inr False, output_line w1 (''Invalid token for user '' @ user g @ ''.''))
                     else (Inr True, w1))))"

definition authenticated :: "env \<Rightarrow> gist \<Rightarrow> world \<Rightarrow> (exn + bool) \<times> gist \<times> world" where
  "authenticated E g w =
     (let (tok, w1) = get_token E w;
          g1 = g\<lparr>token := tok\<rparr>
      in case validate_token E g1 w1 of
           (Inl e, w2) \<Rightarrow> (Inl e, g1, w2)
         | (Inr valid, w2) \<Rightarrow>
             if py_not (token g1) \<or> \<not> valid
             then (Inr False, g1, output_line w2 ''Looking for public Gists only.'')
             else (Inr True, g1, output_line w2 (''User `'' @ user g1 @ ''` authenticated.'')))"

text \<open>\<^verbatim>\<open>config\<close>: the three arguments are the values after \<^verbatim>\<open>argparse\<close> has filled the
  missing ones from the command line.\<close>

definition config :: "env \<Rightarrow> string \<Rightarrow> string \<Rightarrow> bool \<Rightarrow> gist \<Rightarrow> world \<Rightarrow> (exn + gist) \<times> world" where
  "config E usr fname yes g w =
     (let g1 = g\<lparr>user := usr, file_name := fname, assume_yes := yes\<rparr>
      in case authenticated E g1 w of
           (Inl e, g2, w1) \<Rightarrow> (Inl e, w1)
         | (Inr a, g2, w1) \<Rightarrow>
             (let g3 = g2\<lparr>auth := Some a\<rparr>;
                  g4 = g3\<lparr>local_dir := realpath_curdir E\<rparr>;
                  g5 = g4\<lparr>local_path := join (local_dir g4) (file_name g4)\<rparr>
              in (Inr g5, w1)))"

subsection \<open>Locating the file\<close>

definition query_api :: "env \<Rightarrow> gist \<Rightarrow> world \<Rightarrow> (exn + api_gist list) \<times> world" where
  "query_api E g w =
     (let url = api_url @ ''/users/'' @ user g @ ''/gists''
      in case curl E g w url Map.empty of
           (Inl e, w1) \<Rightarrow> (Inl e, w1)
         | (Inr contents, w1) \<Rightarrow>
             if contents = []
             then (Inr [], output_line w1 ''[Hint] Check if the entered user name is correct.'')
             else (case json_loads (json_gists E) contents of
                     Inl e \<Rightarrow> (Inl e, w1)
                   | Inr gists \<Rightarrow> (Inr gists, w1)))"

text \<open>The body of the generator \<^verbatim>\<open>filter_gists\<close>, run over the listing.\<close>

fun filter_loop :: "string \<Rightarrow> api_gist list \<Rightarrow> match list" where
  "filter_loop fname [] = []"
| "filter_loop fname (gst # rest) =
     (case files gst fname of
        Some f \<Rightarrow>
          \<lparr>match_id = gist_id gst, description = gist_description gst, raw_url = file_raw_url f\<rparr>
            # filter_loop fname rest
      | None \<Rightarrow> filter_loop fname rest)"

definition filter_gists :: "env \<Rightarrow> gist \<Rightarrow> world \<Rightarrow> (exn + match list) \<times> world" where
  "filter_gists E g w =
     (case query_api E g w of
        (Inl e, w1) \<Rightarrow> (Inl e, w1)
      | (Inr gists, w1) \<Rightarrow> (Inr (filter_loop (file_name g) gists), w1))"

text \<open>The loop of \<^verbatim>\<open>select_file\<close> that prints the options and collects the indexes.\<close>

fun list_options :: "match list \<Rightarrow> match list \<Rightarrow> nat list \<Rightarrow> world \<Rightarrow> (exn + nat list) \<times> world" where
  "list_options fls [] valid_indexes w = (Inr valid_indexes, w)"
| "list_options fls (f # rest) valid_indexes w =
     (case list_index fls f of
        None \<Rightarrow> (Inl ValueError, w)
      | Some index \<Rightarrow>
          list_options fls rest (valid_indexes @ [index])
            (output_line w (''['' @ str_nat (index + 1) @ ''] '' @ str_opt (description f))))"

text \<open>
  \<^verbatim>\<open>select_file\<close> calls itself after every answer it rejects, and its bare \<^verbatim>\<open>except:\<close>
  also catches the \<^verbatim>\<open>EOFError\<close> of \<^verbatim>\<open>input\<close>: at the end of the input it asks again
  for ever. The result \<open>None\<close> is that run. The depth of the recursion is not bounded
  in the model.
\<close>

partial_function (option) select_file ::
  "env \<Rightarrow> gist \<Rightarrow> match list \<Rightarrow> world \<Rightarrow> ((exn + match option) \<times> world) option" where
  "select_file E g fls w =
     (if length fls = 0 then Some (Inr None, w)
      else if length fls = 1 \<or> assume_yes g then Some (Inr (Some (fls ! 0)), w)
      else
        (let w1 = output_line w (''Download '' @ file_name g @ '' from which Gist?'')
         in case list_options fls fls [] w1 of
              (Inl e, w2) \<Rightarrow> Some (Inl e, w2)
            | (Inr valid_indexes, w2) \<Rightarrow>
                (case ask w2 ''Type the number: '' of
                   (Inl e, w3) \<Rightarrow> select_file E g fls (output_line w3 ''Please type a number.'')
                 | (Inr answer, w3) \<Rightarrow>
                     (case int_of_str E answer of
                        None \<Rightarrow> select_file E g fls (output_line w3 ''Please type a number.'')
                      | Some n \<Rightarrow>
                          (let gist_index = n - 1
                           in if gist_index \<notin> int ` set valid_indexes
                              then select_file E g fls
                                     (output_line w3 ''Invalid number, please try again.'')
                              else
                                (let selected = fls ! nat gist_index
                                 in Some (Inr (Some selected),
                                          output_line w3 (''Using `'' @ str_opt (description selected)
                                                     @ ''` Gist'' @ ellipsis))))))))"

definition load_gist_info :: "env \<Rightarrow> gist \<Rightarrow> world \<Rightarrow> ((exn + match option) \<times> world) option" where
  "load_gist_info E g w =
     (case filter_gists E g w of
        (Inl e, w1) \<Rightarrow> Some (Inl e, w1)
      | (Inr gists, w1) \<Rightarrow>
          if gists \<noteq> [] then select_file E g gists w1
          else Some (Inr None,
                     output_line w1 (''[Error] No file named `'' @ file_name g @ ''` found in ''
                                @ user g @ [CHR 0x27] @ ''s Gists.'')))"

subsection \<open>Saving\<close>

text \<open>The loop of \<^verbatim>\<open>backup\<close>, with its three variables. It runs for ever when every
  candidate name exists; the result \<open>None\<close> is that run.\<close>

partial_function (option) backup_loop ::
  "gist \<Rightarrow> world \<Rightarrow> nat \<Rightarrow> string \<Rightarrow> string \<Rightarrow> (nat \<times> string \<times> string) option" where
  "backup_loop g w count name backup =
     (if exists w backup
      then (let count' = count + 1;
                name' = file_name g @ ''.bkp'' @ str_nat count';
                backup' = join (local_dir g) name'
            in backup_loop g w count' name' backup')
      else Some (count, name, backup))"

definition backup :: "gist \<Rightarrow> world \<Rightarrow> ((exn + unit) \<times> world) option" where
  "backup g w =
     (let count = 0;
          name = file_name g @ ''.bkp'';
          backup = join (local_dir g) name
      in case backup_loop g w count name backup of
           None \<Rightarrow> None
         | Some (count', name', backup') \<Rightarrow>
             (let w1 = output_line w (''Moving existing '' @ file_name g @ '' to '' @ name' @ ellipsis)
              in Some (os_rename w1 (join (local_dir g) (file_name g)) backup')))"

text \<open>The property \<^verbatim>\<open>raw_url\<close>: \<^verbatim>\<open>False\<close> (here \<open>None\<close>) when no gist was found.\<close>

definition raw_url_prop :: "gist \<Rightarrow> string option" where
  "raw_url_prop g = (case info g of None \<Rightarrow> None | Some m \<Rightarrow> Some (raw_url m))"

text \<open>
  Lines 99 to 105 of \<^verbatim>\<open>save\<close>: \<^verbatim>\<open>open(self.local_path, 'w')\<close> creates the file, or empties
  it, before \<^verbatim>\<open>curl\<close> is called inside the \<^verbatim>\<open>with\<close> block. With \<^verbatim>\<open>raw_url\<close> being
  \<^verbatim>\<open>False\<close>, \<^verbatim>\<open>Request\<close> raises \<^verbatim>\<open>ValueError\<close> after the progress notice.
\<close>

definition save_new :: "env \<Rightarrow> gist \<Rightarrow> world \<Rightarrow> (exn + unit) \<times> world" where
  "save_new E g w =
     (let w1 = w\<lparr>fs := (fs w)(local_path g \<mapsto> [])\<rparr>
      in case (case raw_url_prop g of
                 None \<Rightarrow> (Inl ValueError, output_line w1 (''Fetching False '' @ ellipsis))
               | Some url \<Rightarrow> curl E g w1 url Map.empty) of
           (Inl e, w2) \<Rightarrow> (Inl e, w2)
         | (Inr contents, w2) \<Rightarrow>
             (let w3 = output_line w2 (''Saving new '' @ file_name g @ '' '' @ ellipsis);
                  w4 = w3\<lparr>fs := (fs w3)(local_path g \<mapsto> contents)\<rparr>;
                  w5 = output_line w4 (''Saved as '' @ abspath E (local_path g))
              in (Inr (), output_line w5 ''Done!'')))"

definition save :: "env \<Rightarrow> gist \<Rightarrow> world \<Rightarrow> ((exn + unit) \<times> world) option" where
  "save E g w =
     (if exists w (local_path g)
      then
        (case (if \<not> assume_yes g
               then ask w (''Delete existing '' @ file_name g @ '' ? (y/n) '')
               else (Inr ''y'', w)) of
           (Inl e, w1) \<Rightarrow> Some (Inl e, w1)
         | (Inr confirm, w1) \<Rightarrow>
             if lower confirm = ''y''
             then (case os_remove (output_line w1 (''Deleting existing '' @ file_name g @ '' '' @ ellipsis))
                          (local_path g) of
                     (Inl e, w2) \<Rightarrow> Some (Inl e, w2)
                   | (Inr u, w2) \<Rightarrow> Some (save_new E g w2))
             else (case backup g w1 of
                     None \<Rightarrow> None
                   | Some (Inl e, w2) \<Rightarrow> Some (Inl e, w2)
                   | Some (Inr u, w2) \<Rightarrow> Some (save_new E g w2)))
      else Some (save_new E g w))"

subsection \<open>The constructor and the entry point\<close>

definition new_gist :: gist where
  "new_gist = \<lparr>user = [], file_name = [], assume_yes = False, auth = None, token = None,
               local_dir = [], local_path = [], info = None\<rparr>"

definition Gist_init :: "env \<Rightarrow> string \<Rightarrow> string \<Rightarrow> bool \<Rightarrow> world \<Rightarrow> ((exn + gist) \<times> world) option" where
  "Gist_init E usr fname yes w =
     (case config E usr fname yes (new_gist\<lparr>auth := None\<rparr>) w of
        (Inl e, w1) \<Rightarrow> Some (Inl e, w1)
      | (Inr g, w1) \<Rightarrow>
          (case load_gist_info E g w1 of
             None \<Rightarrow> None
           | Some (Inl e, w2) \<Rightarrow> Some (Inl e, w2)
           | Some (Inr i, w2) \<Rightarrow> Some (Inr (g\<lparr>info := i\<rparr>), w2)))"

definition run_getgist :: "env \<Rightarrow> string \<Rightarrow> string \<Rightarrow> bool \<Rightarrow> world \<Rightarrow> ((exn + unit) \<times> world) option" where
  "run_getgist E usr fname yes w =
     (case Gist_init E usr fname yes w of
        None \<Rightarrow> None
      | Some (Inl e, w1) \<Rightarrow> Some (Inl e, w1)
      | Some (Inr g, w1) \<Rightarrow> if info g \<noteq> None then save E g w1 else Some (Inr (), w1))"

section \<open>Concrete runs\<close>

text \<open>The environments, objects and states at which the theorems below are evaluated.
  \<open>offline_env\<close> is a machine without network: every request raises \<^verbatim>\<open>URLError\<close>.
  \<open>bad_token_env\<close> has a token that GitHub refuses with status 401, which \<^verbatim>\<open>urlopen\<close>
  raises as \<^verbatim>\<open>HTTPError\<close>.\<close>

definition offline_env :: env where
  "offline_env =
     \<lparr>urlopen = (\<lambda>url headers. Raised URLError), utf8_decode = (\<lambda>b. None),
      json_gists = (\<lambda>s. None), json_user = (\<lambda>s. None), int_of_str = (\<lambda>s. None),
      getenv_token = None, realpath_curdir = ''/home/alice'', abspath = (\<lambda>p. p)\<rparr>"

definition bad_token_env :: env where
  "bad_token_env =
     offline_env\<lparr>urlopen := (\<lambda>url headers. Raised (HTTPError 401)),
                 getenv_token := Some ''secret''\<rparr>"

definition empty_world :: world where
  "empty_world = \<lparr>fs = Map.empty, out = [], inp = []\<rparr>"

definition alice :: gist where
  "alice = \<lparr>user = ''alice'', file_name = ''notes.txt'', assume_yes = False, auth = Some False,
            token = None, local_dir = ''/home/alice'', local_path = ''/home/alice/notes.txt'',
            info = None\<rparr>"

definition m_v1 :: match where
  "m_v1 = \<lparr>match_id = ''aa11'', description = Some ''v1'', raw_url = ''https://raw/aa11/notes.txt''\<rparr>"

definition m_v2 :: match where
  "m_v2 = \<lparr>match_id = ''bb22'', description = Some ''v2'', raw_url = ''https://raw/bb22/notes.txt''\<rparr>"

definition gist_a :: api_gist where
  "gist_a = \<lparr>gist_id = ''aa11'', gist_description = Some ''v1'',
             files = [''notes.txt'' \<mapsto> \<lparr>file_raw_url = ''https://raw/aa11/notes.txt''\<rparr>]\<rparr>"

definition gist_c :: api_gist where
  "gist_c = \<lparr>gist_id = ''cc33'', gist_description = None,
             files = [''todo.md'' \<mapsto> \<lparr>file_raw_url = ''https://raw/cc33/todo.md''\<rparr>]\<rparr>"

text \<open>\<open>online_env\<close> answers the listing of alice's gists with \<open>gist_a\<close> and \<open>gist_c\<close>,
  and the raw URL of \<open>gist_a\<close> with the text \<^verbatim>\<open>hello\<close>; any other URL is a 404.\<close>

definition online_env :: env where
  "online_env =
     \<lparr>urlopen = (\<lambda>url headers.
         if url = ''https://api.github.com/users/alice/gists'' then Response 200 [1]
         else if url = ''https://raw/aa11/notes.txt'' then Response 200 [2]
         else Raised (HTTPError 404)),
      utf8_decode = (\<lambda>b. if b = [1] then Some ''[listing]'' else if b = [2] then Some ''hello'' else None),
      json_gists = (\<lambda>s. if s = ''[listing]'' then Some [gist_a, gist_c] else None),
      json_user = (\<lambda>s. None),
      int_of_str = (\<lambda>s. if s = ''1'' then Some 1 else if s = ''2'' then Some 2
                         else if s = ''7'' then Some 7 else None),
      getenv_token = None, realpath_curdir = ''/home/alice'', abspath = (\<lambda>p. p)\<rparr>"

text \<open>\<open>alice\<close> after the gist was found: \<open>alice_v1\<close> holds the match whose raw URL
  answers, \<open>alice_v2\<close> a match whose raw URL is a 404.\<close>

definition alice_v1 :: gist where
  "alice_v1 = alice\<lparr>info := Some m_v1\<rparr>"

definition alice_v2 :: gist where
  "alice_v2 = alice\<lparr>info := Some m_v2\<rparr>"

section \<open>Basic facts\<close>

lemma indent_2: "indent m 2 = CHR '' '' # CHR '' '' # m"
  by (simp add: indent_def numeral_2_eq_2)

lemma lower_y [simp]: "lower ''y'' = ''y''"
  by (simp add: lower_def lower_char_def)

lemma fs_output_line [simp]: "fs (output_line w m) = fs w"
  by (simp add: output_line_def)

lemma inp_output_line [simp]: "inp (output_line w m) = inp w"
  by (simp add: output_line_def)

lemma out_output_line [simp]: "out (output_line w m) = out w @ [Printed (indent m 2)]"
  by (simp add: output_line_def)

lemma curl_fs [simp]: "fs (snd (curl E g w url headers)) = fs w"
  by (simp add: curl_def Let_def split: urlopen_result.splits option.splits)

lemma curl_inp [simp]: "inp (snd (curl E g w url headers)) = inp w"
  by (simp add: curl_def Let_def split: urlopen_result.splits option.splits)

lemma curl_fst_world: "fst (curl E g w url headers) = fst (curl E g w' url headers)"
  by (simp add: curl_def Let_def split: urlopen_result.splits option.splits)

section \<open>Transport\<close>

text \<open>What \<^verbatim>\<open>curl\<close> does recover from: an \<^verbatim>\<open>HTTPError\<close>, and a response whose status is
  not 200. Both give the empty string after a diagnostic that names the URL.\<close>

lemma curl_HTTPError:
  assumes "urlopen E url headers = Raised (HTTPError code)" and "auth g \<noteq> Some True"
  shows "curl E g w url headers =
           (Inr [], output_line (output_line w (''Fetching '' @ url @ '' '' @ ellipsis))
                      (''[Error] Couldn't reach GitHub at '' @ url @ ''.''))"
  using assms by (simp add: curl_def Let_def)

lemma curl_not_200:
  assumes "urlopen E url headers = Response status body" and "status \<noteq> 200"
    and "auth g \<noteq> Some True"
  shows "curl E g w url headers =
           (Inr [], output_line (output_line w (''Fetching '' @ url @ '' '' @ ellipsis))
                      (''[Error] HTTP Status '' @ url @ ''.''))"
  using assms by (simp add: curl_def Let_def)

text \<open>
  Claim C1. The claim: \<^verbatim>\<open>curl\<close> never lets an exception reach its caller; an unreachable
  host, a timeout or a malformed response gives a diagnostic and the empty string. The
  code: its \<^verbatim>\<open>except HTTPError\<close> does not catch the \<^verbatim>\<open>URLError\<close> of an unreachable host
  (nor a timeout, nor a malformed status line). On a machine without network \<^verbatim>\<open>curl\<close>
  prints the progress notice and raises \<^verbatim>\<open>URLError\<close>: no diagnostic, no empty string.
\<close>

theorem curl_propagates_URLError:
  "curl offline_env g w url Map.empty =
     (Inl URLError, output_line w (''Fetching '' @ url @ '' '' @ ellipsis))"
  by (simp add: curl_def offline_env_def Let_def)

section \<open>Authentication\<close>

text \<open>The part of the claim below that the code keeps: a login that is not the user
  name gives the anonymous state, with both notices.\<close>

lemma authenticated_login_mismatch:
  assumes "getenv_token E = Some tok" and "tok \<noteq> []"
    and "curl E (g\<lparr>token := Some tok\<rparr>) w (api_url @ ''/user'')
           [''Authorization'' \<mapsto> ''token '' @ tok] = (Inr s, w1)"
    and "json_loads (json_user E) s = Inr response" and "login response \<noteq> Some (user g)"
  shows "authenticated E g w =
           (Inr False, g\<lparr>token := Some tok\<rparr>,
            output_line (output_line w1 (''Invalid token for user '' @ user g @ ''.''))
              ''Looking for public Gists only.'')"
  using assms by (simp add: authenticated_def get_token_def validate_token_def Let_def)

text \<open>
  Claim C2. The claim: with a credential present, a failed fetch of the identity endpoint
  gives the anonymous state and never aborts the run. The code: \<^verbatim>\<open>validate_token\<close>
  hands the empty string of the failed fetch to \<^verbatim>\<open>json.loads\<close>, which raises
  \<^verbatim>\<open>ValueError\<close>; nothing catches it, so \<^verbatim>\<open>authenticated\<close>, the constructor and the
  run end with that exception. (\<^verbatim>\<open>query_api\<close> does test for the empty string before it
  decodes.)
\<close>

theorem authenticated_aborts_on_transport_failure:
  "fst (authenticated bad_token_env g w) = Inl ValueError \<and>
   (\<exists>w'. run_getgist bad_token_env usr fname yes w = Some (Inl ValueError, w'))"
  by (simp add: authenticated_def get_token_def validate_token_def curl_def json_loads_def
      bad_token_env_def offline_env_def Let_def run_getgist_def Gist_init_def config_def)

section \<open>Selection without a prompt\<close>

text \<open>
  Claim C5. With exactly one candidate \<^verbatim>\<open>select_file\<close> returns it, whatever the
  \<^verbatim>\<open>assume_yes\<close> flag; with more than one candidate and \<^verbatim>\<open>assume_yes\<close> set it returns the
  first of the list. In both cases the state is returned as it was: nothing is printed
  and nothing is asked.
\<close>

theorem select_file_single_or_auto:
  "(length fls = 1 \<longrightarrow> select_file E g fls w = Some (Inr (Some (hd fls)), w)) \<and>
   (1 < length fls \<and> assume_yes g \<longrightarrow> select_file E g fls w = Some (Inr (Some (hd fls)), w))"
  by (cases fls) (simp_all add: select_file.simps)

theorem select_file_single_or_auto_witness:
  "length [m_v1] = 1 \<and>
   select_file online_env alice [m_v1] empty_world = Some (Inr (Some m_v1), empty_world) \<and>
   1 < length [m_v1, m_v2] \<and> assume_yes (alice\<lparr>assume_yes := True\<rparr>) \<and>
   select_file online_env (alice\<lparr>assume_yes := True\<rparr>) [m_v1, m_v2] empty_world
     = Some (Inr (Some m_v1), empty_world)"
  using select_file_single_or_auto [of "[m_v1]" online_env alice empty_world]
    select_file_single_or_auto [of "[m_v1, m_v2]" online_env "alice\<lparr>assume_yes := True\<rparr>" empty_world]
  by simp

section \<open>The filter\<close>

lemma filter_loop_map_filter:
  "filter_loop fname gists =
     map (\<lambda>gst. \<lparr>match_id = gist_id gst, description = gist_description gst,
                 raw_url = file_raw_url (the (files gst fname))\<rparr>)
         (filter (\<lambda>gst. fname \<in> dom (files gst)) gists)"
  by (induction gists) (auto split: option.splits)

text \<open>
  Claim C8. Of the listing that \<^verbatim>\<open>query_api\<close> returns, \<^verbatim>\<open>filter_gists\<close> keeps, in order,
  exactly the gists whose \<^verbatim>\<open>files\<close> mapping has the key \<^verbatim>\<open>file_name\<close>, and each match
  carries the gist's id, its description and the raw URL of that file.
\<close>

theorem filter_gists_keeps_exact_matches:
  assumes "query_api E g w = (Inr gists, w1)"
  shows "filter_gists E g w =
           (Inr (map (\<lambda>gst. \<lparr>match_id = gist_id gst, description = gist_description gst,
                              raw_url = file_raw_url (the (files gst (file_name g)))\<rparr>)
                     (filter (\<lambda>gst. file_name g \<in> dom (files gst)) gists)), w1)"
  using assms by (simp add: filter_gists_def filter_loop_map_filter)

lemma query_api_online:
  "query_api online_env alice empty_world =
     (Inr [gist_a, gist_c],
      output_line empty_world (''Fetching https://api.github.com/users/alice/gists '' @ ellipsis))"
  by (simp add: query_api_def curl_def online_env_def alice_def api_url_def json_loads_def Let_def)

theorem filter_gists_keeps_exact_matches_witness:
  "fst (query_api online_env alice empty_world) = Inr [gist_a, gist_c] \<and>
   fst (filter_gists online_env alice empty_world) = Inr [m_v1]"
proof -
  have "fst (filter_gists online_env alice empty_world) =
          Inr (map (\<lambda>gst. \<lparr>match_id = gist_id gst, description = gist_description gst,
                            raw_url = file_raw_url (the (files gst (file_name alice)))\<rparr>)
                   (filter (\<lambda>gst. file_name alice \<in> dom (files gst)) [gist_a, gist_c]))"
    using filter_gists_keeps_exact_matches [OF query_api_online] by simp
  also have "\<dots> = Inr [m_v1]"
    by (simp add: alice_def gist_a_def gist_c_def m_v1_def)
  finally show ?thesis by (simp add: query_api_online)
qed

section \<open>Saving\<close>

text \<open>What \<^verbatim>\<open>save_new\<close> returns and leaves behind, for a gist that was found.\<close>

lemma save_new_result:
  assumes "info g = Some m"
  shows "fst (save_new E g w0) =
           (case fst (curl E g w0 (raw_url m) Map.empty) of Inl e \<Rightarrow> Inl e | Inr c \<Rightarrow> Inr ())"
    and "fs (snd (save_new E g w0)) =
           (fs w0)(local_path g \<mapsto>
              (case fst (curl E g w0 (raw_url m) Map.empty) of Inl e \<Rightarrow> [] | Inr c \<Rightarrow> c))"
    and "inp (snd (save_new E g w0)) = inp w0"
proof -
  define w1 where "w1 = w0\<lparr>fs := (fs w0)(local_path g \<mapsto> [])\<rparr>"
  obtain r w2 where c: "curl E g w1 (raw_url m) Map.empty = (r, w2)"
    by (cases "curl E g w1 (raw_url m) Map.empty")
  have f: "fs w2 = fs w1" and i: "inp w2 = inp w1"
    using curl_fs [of E g w1 "raw_url m" Map.empty] curl_inp [of E g w1 "raw_url m" Map.empty] c
    by simp_all
  have r: "fst (curl E g w0 (raw_url m) Map.empty) = r"
    using curl_fst_world [of E g w0 "raw_url m" Map.empty w1] c by simp
  have s: "save_new E g w0 =
      (case r of Inl e \<Rightarrow> (Inl e, w2)
       | Inr contents \<Rightarrow>
          (Inr (), output_line (output_line
             ((output_line w2 (''Saving new '' @ file_name g @ '' '' @ ellipsis))
                \<lparr>fs := (fs w2)(local_path g \<mapsto> contents)\<rparr>)
             (''Saved as '' @ abspath E (local_path g))) ''Done!''))"
    using assms c
    by (simp add: save_new_def raw_url_prop_def Let_def w1_def [symmetric] split: sum.splits)
  show "fst (save_new E g w0) =
           (case fst (curl E g w0 (raw_url m) Map.empty) of Inl e \<Rightarrow> Inl e | Inr c \<Rightarrow> Inr ())"
    by (simp add: s r split: sum.splits)
  show "fs (snd (save_new E g w0)) =
           (fs w0)(local_path g \<mapsto>
              (case fst (curl E g w0 (raw_url m) Map.empty) of Inl e \<Rightarrow> [] | Inr c \<Rightarrow> c))"
    by (simp add: s r f w1_def split: sum.splits)
  show "inp (snd (save_new E g w0)) = inp w0"
    by (simp add: s i w1_def split: sum.splits)
qed

lemma save_ends_in_save_new:
  assumes "save E g w = Some (Inr (), w')"
  shows "\<exists>w0. save_new E g w0 = (Inr (), w')"
  using assms
  by (auto simp: save_def split: if_splits prod.splits sum.splits option.splits)

lemma save_without_conflict:
  assumes "\<not> exists w (local_path g) \<or> assume_yes g"
  shows "\<exists>w0. save E g w = Some (save_new E g w0)"
  using assms
  by (auto simp: save_def exists_def os_remove_def split: option.splits)

text \<open>
  Claim C7. If \<^verbatim>\<open>curl\<close> returns the text \<open>C\<close> for the raw URL of the gist that was found,
  then after a \<^verbatim>\<open>save\<close> that returns normally the file at \<^verbatim>\<open>local_path\<close> holds exactly
  \<open>C\<close>. (The file system of the model holds the decoded text that \<^verbatim>\<open>write\<close> is given.)
\<close>

theorem save_round_trip:
  assumes "info g = Some m" and "fst (curl E g w (raw_url m) Map.empty) = Inr C"
    and "save E g w = Some (Inr (), w')"
  shows "fs w' (local_path g) = Some C"
proof -
  from assms(3) obtain w0 where s: "save_new E g w0 = (Inr (), w')"
    using save_ends_in_save_new by blast
  have "fst (curl E g w0 (raw_url m) Map.empty) = Inr C"
    using assms(2) curl_fst_world [of E g w0 "raw_url m" Map.empty w] by simp
  then have "fs (snd (save_new E g w0)) (local_path g) = Some C"
    using save_new_result(2) [OF assms(1), of E w0] by simp
  with s show ?thesis by simp
qed

lemma save_online_v1:
  "save online_env alice_v1 empty_world =
     Some (Inr (),
       \<lparr>fs = [''/home/alice/notes.txt'' \<mapsto> ''hello''],
        out = [Printed (''  Fetching https://raw/aa11/notes.txt '' @ ellipsis),
               Printed (''  Saving new notes.txt '' @ ellipsis),
               Printed ''  Saved as /home/alice/notes.txt'',
               Printed ''  Done!''],
        inp = []\<rparr>)"
  by (simp add: save_def save_new_def exists_def raw_url_prop_def curl_def online_env_def
      alice_v1_def alice_def m_v1_def empty_world_def output_line_def indent_2 Let_def)

theorem save_round_trip_witness:
  "info alice_v1 = Some m_v1 \<and>
   fst (curl online_env alice_v1 empty_world (raw_url m_v1) Map.empty) = Inr ''hello'' \<and>
   fs \<lparr>fs = [''/home/alice/notes.txt'' \<mapsto> ''hello''],
        out = [Printed (''  Fetching https://raw/aa11/notes.txt '' @ ellipsis),
               Printed (''  Saving new notes.txt '' @ ellipsis),
               Printed ''  Saved as /home/alice/notes.txt'',
               Printed ''  Done!''],
        inp = []\<rparr> (local_path alice_v1) = Some ''hello''"
proof -
  have i: "info alice_v1 = Some m_v1" by (simp add: alice_v1_def)
  have c: "fst (curl online_env alice_v1 empty_world (raw_url m_v1) Map.empty) = Inr ''hello''"
    by (simp add: curl_def online_env_def alice_v1_def alice_def m_v1_def Let_def)
  from save_round_trip [OF i c save_online_v1] i c show ?thesis by simp
qed

text \<open>
  Claim C3, as the specification states it: when the fetch of the raw content fails,
  \<^verbatim>\<open>save\<close> does not create an empty file at \<^verbatim>\<open>local_path\<close>. The code has no such guard.
  In a directory without \<^verbatim>\<open>notes.txt\<close>, with a raw URL that answers 404, \<^verbatim>\<open>curl\<close>
  returns the empty string, and \<^verbatim>\<open>save\<close> returns normally, reports the file as saved,
  and leaves an empty \<^verbatim>\<open>notes.txt\<close>.
\<close>

theorem save_writes_empty_file_counterexample:
  "fst (curl online_env alice_v2 empty_world (raw_url m_v2) Map.empty) = Inr [] \<and>
   fs empty_world (local_path alice_v2) = None \<and>
   save online_env alice_v2 empty_world =
     Some (Inr (),
       \<lparr>fs = [''/home/alice/notes.txt'' \<mapsto> []],
        out = [Printed (''  Fetching https://raw/bb22/notes.txt '' @ ellipsis),
               Printed ''  [Error] Couldn't reach GitHub at https://raw/bb22/notes.txt.'',
               Printed (''  Saving new notes.txt '' @ ellipsis),
               Printed ''  Saved as /home/alice/notes.txt'',
               Printed ''  Done!''],
        inp = []\<rparr>)"
  by (simp add: save_def save_new_def exists_def raw_url_prop_def curl_def online_env_def
      alice_v2_def alice_def m_v2_def empty_world_def output_line_def indent_2 Let_def)

text \<open>
  Claim C3, amended to what the code does. \<^verbatim>\<open>save\<close> opens the file for writing before it
  fetches, and writes whatever \<^verbatim>\<open>curl\<close> returned: when the fetch of the raw content
  fails, every \<^verbatim>\<open>save\<close> that returns normally leaves an empty file at \<^verbatim>\<open>local_path\<close>;
  and \<^verbatim>\<open>save\<close> does return normally when there is no local file or \<^verbatim>\<open>assume_yes\<close> is set.
\<close>

theorem save_failed_fetch_leaves_empty_file:
  assumes "info g = Some m" and "fst (curl E g w (raw_url m) Map.empty) = Inr []"
  shows "(\<forall>w'. save E g w = Some (Inr (), w') \<longrightarrow> fs w' (local_path g) = Some []) \<and>
         (\<not> exists w (local_path g) \<or> assume_yes g \<longrightarrow> (\<exists>w'. save E g w = Some (Inr (), w')))"
proof (intro conjI allI impI)
  fix w' assume "save E g w = Some (Inr (), w')"
  then obtain w0 where s: "save_new E g w0 = (Inr (), w')"
    using save_ends_in_save_new by blast
  have "fst (curl E g w0 (raw_url m) Map.empty) = Inr []"
    using assms(2) curl_fst_world [of E g w0 "raw_url m" Map.empty w] by simp
  then have "fs (snd (save_new E g w0)) (local_path g) = Some []"
    using save_new_result(2) [OF assms(1), of E w0] by simp
  with s show "fs w' (local_path g) = Some []" by simp
next
  assume "\<not> exists w (local_path g) \<or> assume_yes g"
  then obtain w0 where s: "save E g w = Some (save_new E g w0)"
    using save_without_conflict by blast
  have "fst (curl E g w0 (raw_url m) Map.empty) = Inr []"
    using assms(2) curl_fst_world [of E g w0 "raw_url m" Map.empty w] by simp
  then have "fst (save_new E g w0) = Inr ()"
    using save_new_result(1) [OF assms(1), of E w0] by simp
  then have "save_new E g w0 = (Inr (), snd (save_new E g w0))"
    by (metis prod.collapse)
  with s have "save E g w = Some (Inr (), snd (save_new E g w0))" by simp
  then show "\<exists>w'. save E g w = Some (Inr (), w')" by blast
qed

theorem save_failed_fetch_leaves_empty_file_witness:
  "info alice_v2 = Some m_v2 \<and>
   fst (curl online_env alice_v2 empty_world (raw_url m_v2) Map.empty) = Inr [] \<and>
   \<not> exists empty_world (local_path alice_v2) \<and>
   (\<exists>w'. save online_env alice_v2 empty_world = Some (Inr (), w') \<and>
         fs w' (local_path alice_v2) = Some [])"
proof -
  have i: "info alice_v2 = Some m_v2" by (simp add: alice_v2_def)
  have c: "fst (curl online_env alice_v2 empty_world (raw_url m_v2) Map.empty) = Inr []"
    by (simp add: curl_def online_env_def alice_v2_def alice_def m_v2_def Let_def)
  have e: "\<not> exists empty_world (local_path alice_v2)"
    by (simp add: exists_def empty_world_def)
  from save_failed_fetch_leaves_empty_file [OF i c] e
  have "\<exists>w'. save online_env alice_v2 empty_world = Some (Inr (), w')"
    and "\<forall>w'. save online_env alice_v2 empty_world = Some (Inr (), w') \<longrightarrow>
           fs w' (local_path alice_v2) = Some []"
    by blast+
  then have "\<exists>w'. save online_env alice_v2 empty_world = Some (Inr (), w') \<and>
         fs w' (local_path alice_v2) = Some []"
    by blast
  with i c e show ?thesis by blast
qed

section \<open>No match\<close>

lemma curl_frame:
  assumes "curl E g w url headers = (r, w1)"
  shows "fs w1 = fs w" and "inp w1 = inp w"
proof -
  have "w1 = snd (curl E g w url headers)" using assms by simp
  then show "fs w1 = fs w" and "inp w1 = inp w" by simp_all
qed

lemma validate_token_frame:
  "fs (snd (validate_token E g w)) = fs w" "inp (snd (validate_token E g w)) = inp w"
proof -
  let ?c = "curl E g w (api_url @ ''/user'') [''Authorization'' \<mapsto> ''token '' @ str_opt (token g)]"
  obtain r w1 where c: "?c = (r, w1)" by (cases ?c)
  have "fs w1 = fs w" "inp w1 = inp w"
    using curl_frame [OF c] by simp_all
  then show "fs (snd (validate_token E g w)) = fs w" "inp (snd (validate_token E g w)) = inp w"
    unfolding validate_token_def Let_def c by (simp_all split: sum.splits)
qed

lemma authenticated_frame:
  assumes "authenticated E g w = (r, g', w')"
  shows "fs w' = fs w \<and> inp w' = inp w \<and> g' = g\<lparr>token := getenv_token E\<rparr>"
proof -
  define w1 where "w1 = snd (get_token E w)"
  let ?g1 = "g\<lparr>token := getenv_token E\<rparr>"
  have g: "get_token E w = (getenv_token E, w1)" and f1: "fs w1 = fs w" and i1: "inp w1 = inp w"
    by (simp_all add: get_token_def Let_def w1_def)
  obtain v w2 where v: "validate_token E ?g1 w1 = (v, w2)" by (cases "validate_token E ?g1 w1")
  have "fs w2 = fs w1" "inp w2 = inp w1"
    using validate_token_frame [of E ?g1 w1] v by simp_all
  with f1 i1 have "fs w2 = fs w" "inp w2 = inp w" by simp_all
  moreover have "authenticated E g w =
      (case v of Inl e \<Rightarrow> (Inl e, ?g1, w2)
       | Inr valid \<Rightarrow> if py_not (token ?g1) \<or> \<not> valid
             then (Inr False, ?g1, output_line w2 ''Looking for public Gists only.'')
             else (Inr True, ?g1, output_line w2 (''User `'' @ user ?g1 @ ''` authenticated.'')))"
    by (simp add: authenticated_def g Let_def v)
  ultimately show ?thesis using assms by (auto split: sum.splits if_splits)
qed

lemma config_result:
  assumes "config E usr fname yes g0 w = (Inr g, w1)"
  shows "user g = usr \<and> file_name g = fname \<and> assume_yes g = yes \<and> info g = info g0 \<and>
         local_dir g = realpath_curdir E \<and> local_path g = join (realpath_curdir E) fname \<and>
         fs w1 = fs w \<and> inp w1 = inp w"
proof -
  let ?g1 = "g0\<lparr>user := usr, file_name := fname, assume_yes := yes\<rparr>"
  obtain r g2 w2 where a: "authenticated E ?g1 w = (r, g2, w2)"
    by (cases "authenticated E ?g1 w")
  from authenticated_frame [OF a] have "fs w2 = fs w" "inp w2 = inp w" "g2 = ?g1\<lparr>token := getenv_token E\<rparr>"
    by simp_all
  with assms a show ?thesis
    by (auto simp: config_def Let_def split: sum.splits)
qed

lemma query_api_frame:
  "fs (snd (query_api E g w)) = fs w" "inp (snd (query_api E g w)) = inp w"
proof -
  let ?c = "curl E g w (api_url @ ''/users/'' @ user g @ ''/gists'') Map.empty"
  obtain r w1 where c: "?c = (r, w1)" by (cases ?c)
  have "fs w1 = fs w" "inp w1 = inp w"
    using curl_frame [OF c] by simp_all
  then show "fs (snd (query_api E g w)) = fs w" "inp (snd (query_api E g w)) = inp w"
    unfolding query_api_def Let_def c by (simp_all split: sum.splits)
qed

lemma filter_gists_frame:
  "fs (snd (filter_gists E g w)) = fs w" "inp (snd (filter_gists E g w)) = inp w"
  using query_api_frame [of E g w]
  by (cases "query_api E g w"; simp add: filter_gists_def split: sum.splits)+

text \<open>
  Claim C6. When the constructor has come through \<^verbatim>\<open>config\<close> and the filter finds no
  gist with the file (also when the listing could not be fetched), \<^verbatim>\<open>load_gist_info\<close>
  returns \<^verbatim>\<open>False\<close> after an error line that names the file and the user, and
  \<^verbatim>\<open>run_getgist\<close> returns normally in that same state: \<^verbatim>\<open>save\<close> is not called, the file
  system is the one the run started with, and nothing was asked.
\<close>

theorem not_found_is_clean_noop:
  assumes "config E usr fname yes (new_gist\<lparr>auth := None\<rparr>) w = (Inr g, w1)"
    and "filter_gists E g w1 = (Inr [], w2)"
  shows "load_gist_info E g w1 =
           Some (Inr None,
                 output_line w2 (''[Error] No file named `'' @ fname @ ''` found in '' @ usr
                                 @ [CHR 0x27] @ ''s Gists.'')) \<and>
         run_getgist E usr fname yes w =
           Some (Inr (),
                 output_line w2 (''[Error] No file named `'' @ fname @ ''` found in '' @ usr
                                 @ [CHR 0x27] @ ''s Gists.'')) \<and>
         fs w2 = fs w \<and> inp w2 = inp w"
proof -
  from config_result [OF assms(1)]
  have g: "user g = usr" "file_name g = fname" and w1: "fs w1 = fs w" "inp w1 = inp w"
    by simp_all
  have l: "load_gist_info E g w1 =
           Some (Inr None,
                 output_line w2 (''[Error] No file named `'' @ fname @ ''` found in '' @ usr
                                 @ [CHR 0x27] @ ''s Gists.''))"
    by (simp add: load_gist_info_def assms(2) g)
  have r: "run_getgist E usr fname yes w =
           Some (Inr (),
                 output_line w2 (''[Error] No file named `'' @ fname @ ''` found in '' @ usr
                                 @ [CHR 0x27] @ ''s Gists.''))"
    by (simp add: run_getgist_def Gist_init_def assms(1) l)
  have "fs w2 = fs w1" "inp w2 = inp w1"
    using filter_gists_frame [of E g w1] assms(2) by simp_all
  with l r w1 show ?thesis by simp
qed

lemma config_online_absent:
  "config online_env ''alice'' ''absent.txt'' False (new_gist\<lparr>auth := None\<rparr>) empty_world =
     (Inr \<lparr>user = ''alice'', file_name = ''absent.txt'', assume_yes = False, auth = Some False,
           token = None, local_dir = ''/home/alice'', local_path = ''/home/alice/absent.txt'',
           info = None\<rparr>,
      \<lparr>fs = Map.empty,
       out = [Printed ''  No access token set.'', Printed ''  Looking for public Gists only.''],
       inp = []\<rparr>)"
  by (simp add: config_def authenticated_def get_token_def validate_token_def online_env_def
      new_gist_def empty_world_def output_line_def indent_2 join_def Let_def)

lemma filter_online_absent:
  "filter_gists online_env
     \<lparr>user = ''alice'', file_name = ''absent.txt'', assume_yes = False, auth = Some False,
           token = None, local_dir = ''/home/alice'', local_path = ''/home/alice/absent.txt'',
           info = None\<rparr>
      \<lparr>fs = Map.empty,
       out = [Printed ''  No access token set.'', Printed ''  Looking for public Gists only.''],
       inp = []\<rparr> =
   (Inr [],
      \<lparr>fs = Map.empty,
       out = [Printed ''  No access token set.'', Printed ''  Looking for public Gists only.'',
              Printed (''  Fetching https://api.github.com/users/alice/gists '' @ ellipsis)],
       inp = []\<rparr>)"
  by (simp add: filter_gists_def query_api_def curl_def online_env_def api_url_def json_loads_def
      gist_a_def gist_c_def output_line_def indent_2 Let_def)

theorem not_found_is_clean_noop_witness:
  "run_getgist online_env ''alice'' ''absent.txt'' False empty_world =
     Some (Inr (),
       \<lparr>fs = Map.empty,
        out = [Printed ''  No access token set.'', Printed ''  Looking for public Gists only.'',
               Printed (''  Fetching https://api.github.com/users/alice/gists '' @ ellipsis),
               Printed ''  [Error] No file named `absent.txt` found in alice's Gists.''],
        inp = []\<rparr>)"
  using not_found_is_clean_noop [OF config_online_absent filter_online_absent]
  by (simp add: output_line_def indent_2)

end
